theory Spec2Isabelle
  imports Main
begin

section \<open>Runtime values, the file system and promises\<close>

type_synonym path = string

text \<open>
  Values that are thrown or that reject a promise. \<open>Error\<close> is \<open>new Error(message)\<close>,
  \<open>TypeError\<close> is what the runtime throws when a value that is not a function is called,
  and \<open>SystemError\<close> is an error of the file-system layer, which carries a \<open>code\<close>.
\<close>

datatype error =
    Error string
  | TypeError string
  | SystemError string

text \<open>\<open>error.code\<close>: only system errors have one, on the others it is undefined.\<close>

fun code :: "error \<Rightarrow> string option" where
  "code (SystemError c) = Some c"
| "code (Error m) = None"
| "code (TypeError m) = None"

text \<open>One argument of a \<open>console.log\<close> call; a printed line is the list of its arguments.\<close>

datatype log_arg = Str string | Err error

text \<open>
  The part of the machine the tasks act on: the content of every file that exists,
  the I/O error the operating system answers with when a path is read (\<open>rfaults\<close>:
  permissions, a device error) or written (\<open>wfaults\<close>: a read-only file), and the lines
  printed so far.
\<close>

record world =
  files :: "path \<rightharpoonup> string"
  rfaults :: "path \<rightharpoonup> error"
  wfaults :: "path \<rightharpoonup> error"
  console :: "log_arg list list"

text \<open>
  A promise (or an \<open>async\<close> function's body), run until it settles: it rejects with
  \<open>Inl\<close> or resolves with \<open>Inr\<close>, and leaves a new state behind.
\<close>

type_synonym ('a, 's) task = "'s \<Rightarrow> (error + 'a) \<times> 's"

definition resolve :: "'a \<Rightarrow> ('a, 's) task" where
  "resolve x s = (Inr x, s)"

definition reject :: "error \<Rightarrow> ('a, 's) task" where
  "reject e s = (Inl e, s)"

text \<open>\<open>p.then(k)\<close>, and \<open>await p\<close> followed by the rest of an \<open>async\<close> body.\<close>

definition then_p :: "('a, 's) task \<Rightarrow> ('a \<Rightarrow> ('b, 's) task) \<Rightarrow> ('b, 's) task" where
  "then_p p k s = (case p s of (Inl e, s') \<Rightarrow> (Inl e, s') | (Inr x, s') \<Rightarrow> k x s')"

text \<open>\<open>p.catch(h)\<close>.\<close>

definition catch_p :: "('a, 's) task \<Rightarrow> (error \<Rightarrow> ('a, 's) task) \<Rightarrow> ('a, 's) task" where
  "catch_p p h s = (case p s of (Inl e, s') \<Rightarrow> h e s' | (Inr x, s') \<Rightarrow> (Inr x, s'))"

text \<open>
  \<open>Promise.all(ps)\<close>. Every promise of the array has been started when \<open>Promise.all\<close>
  is called, so all of them run to the end and leave their effects, also after one has
  rejected. The promises are run here in array order; the result rejects with the error
  of the first rejected promise of the array (at run time: of the first one to reject).
\<close>

fun all_p :: "('a, 's) task list \<Rightarrow> ('a list, 's) task" where
  "all_p [] s = (Inr [], s)"
| "all_p (p # ps) s =
     (case p s of (r, s') \<Rightarrow>
        (case all_p ps s' of (rs, s'') \<Rightarrow>
           ((case r of
               Inl e \<Rightarrow> Inl e
             | Inr x \<Rightarrow> (case rs of Inl e \<Rightarrow> Inl e | Inr xs \<Rightarrow> Inr (x # xs))), s'')))"

definition console_log :: "log_arg list \<Rightarrow> (unit, world) task" where
  "console_log args w = (Inr (), w\<lparr>console := console w @ [args]\<rparr>)"

text \<open>\<open>xs.forEach(f)\<close> for an \<open>f\<close> that only prints.\<close>

fun forEach_log :: "'a list \<Rightarrow> ('a \<Rightarrow> log_arg list) \<Rightarrow> (unit, world) task" where
  "forEach_log [] f = resolve ()"
| "forEach_log (x # xs) f = then_p (console_log (f x)) (\<lambda>_. forEach_log xs f)"

subsection \<open>The promise-based file-system functions of line 15\<close>

definition readFile :: "path \<Rightarrow> (string, world) task" where
  "readFile p w =
     (case rfaults w p of
        Some e \<Rightarrow> (Inl e, w)
      | None \<Rightarrow>
          (case files w p of
             None \<Rightarrow> (Inl (SystemError ''ENOENT''), w)
           | Some contents \<Rightarrow> (Inr contents, w)))"

definition writeFile :: "path \<Rightarrow> string \<Rightarrow> (unit, world) task" where
  "writeFile p data w =
     (case wfaults w p of
        Some e \<Rightarrow> (Inl e, w)
      | None \<Rightarrow> (Inr (), w\<lparr>files := (files w)(p \<mapsto> data)\<rparr>))"

text \<open>
  \<open>copyFile(src, dest, flags)\<close>. The source is opened first, then the destination is
  created. With \<open>COPYFILE_EXCL\<close> the creation is exclusive: it fails with \<open>EEXIST\<close> when
  the destination exists, whatever its permissions, in the same system call that would
  create it. A write fault on the destination is met only when the destination is really
  opened for writing or created.
\<close>

datatype copy_flags = COPYFILE_NONE | COPYFILE_EXCL

definition copyFile :: "path \<Rightarrow> path \<Rightarrow> copy_flags \<Rightarrow> (unit, world) task" where
  "copyFile src dest flags w =
     (case rfaults w src of
        Some e \<Rightarrow> (Inl e, w)
      | None \<Rightarrow>
          (case files w src of
             None \<Rightarrow> (Inl (SystemError ''ENOENT''), w)
           | Some contents \<Rightarrow>
               if flags = COPYFILE_EXCL \<and> files w dest \<noteq> None
               then (Inl (SystemError ''EEXIST''), w)
               else (case wfaults w dest of
                       Some e \<Rightarrow> (Inl e, w)
                     | None \<Rightarrow> (Inr (), w\<lparr>files := (files w)(dest \<mapsto> contents)\<rparr>))))"

section \<open>What the module takes from outside\<close>

text \<open>
  The options \<open>{ fix?: boolean }\<close>: the field may be absent. It is called \<open>fix_opt\<close>
  here, \<open>fix\<close> being a reserved word.
\<close>

record Fixable =
  fix_opt :: "bool option"

record PluginBuildOptions =
  coverage :: bool

text \<open>The option objects of the test and bundle tasks, as line 168 and 169 build them.\<close>

record PluginTestOptions =
  updateSnapshot :: bool
  test_coverage :: bool
  test_watch :: bool

record PluginBundleOptions =
  watch :: bool
  production :: bool

text \<open>A rule failure of the linter, with what its getters return, and a lint result.\<close>

record RuleFailure =
  getRuleSeverity :: string
  getFileName :: string
  line :: nat
  character :: nat
  getFailure :: string

record LintResult =
  errorCount :: nat
  warningCount :: nat
  failures :: "RuleFailure list"

record LinterOptions =
  linter_fix :: bool
  formatter :: string

text \<open>
  The process, the libraries and the two imported tasks: \<open>process.cwd()\<close>,
  \<open>__dirname\<close>, \<open>path.resolve\<close>, \<open>globby\<close>, \<open>JSON.parse\<close>, \<open>prettier.check\<close> and
  \<open>prettier.format\<close> (which throws on a file it cannot parse), \<open>execa\<close>,
  \<open>Configuration.findConfiguration(p).results\<close>, a \<open>Linter\<close> built from its options and
  run on one file, \<open>testPlugin\<close> and the bundle function. A format configuration is the
  parsed base configuration together with the \<open>filepath\<close> entry.
\<close>

record ('json, 'lc) env =
  cwd :: path
  dirname :: path
  resolvePath :: "path \<Rightarrow> string \<Rightarrow> path"
  globby :: "string \<Rightarrow> world \<Rightarrow> path list"
  JSON_parse :: "string \<Rightarrow> error + 'json"
  prettier_check :: "string \<Rightarrow> 'json \<times> path \<Rightarrow> bool"
  prettier_format :: "string \<Rightarrow> 'json \<times> path \<Rightarrow> error + string"
  execa :: "string \<Rightarrow> string list \<Rightarrow> (unit, world) task"
  findConfiguration :: "path \<Rightarrow> world \<Rightarrow> error + 'lc"
  linter_lint :: "LinterOptions \<Rightarrow> path \<Rightarrow> string \<Rightarrow> 'lc \<Rightarrow> (LintResult, world) task"
  testPlugin :: "PluginTestOptions \<Rightarrow> (unit, world) task"
  bundleFn :: "PluginBundleOptions \<Rightarrow> (unit, world) task"

text \<open>
  Modelled from the spec: \<open>useSpinner\<close> of \<open>../utils/useSpinner\<close>, the decorator of
  section 4.1. It returns the value of the work unchanged and re-raises the same error
  unchanged; it only adds the status report of the spinner, which is not part of the
  printed lines here.
\<close>

definition useSpinner :: "string \<Rightarrow> ('o \<Rightarrow> ('a, 's) task) \<Rightarrow> 'o \<Rightarrow> ('a, 's) task" where
  "useSpinner label work = work"

section \<open>The tasks of the module\<close>

definition bundlePlugin :: "('json, 'lc) env \<Rightarrow> PluginBundleOptions \<Rightarrow> (unit, world) task" where
  "bundlePlugin E = useSpinner ''Compiling...'' (\<lambda>options. bundleFn E options)"

definition clean :: "('json, 'lc) env \<Rightarrow> unit \<Rightarrow> (unit, world) task" where
  "clean E = useSpinner ''Cleaning'' (\<lambda>_. execa E ''rimraf'' [cwd E @ ''/dist''])"

subsection \<open>Bootstrap: lines 31 to 55\<close>

definition copyIfNonExistent :: "path \<Rightarrow> path \<Rightarrow> (unit, world) task" where
  "copyIfNonExistent srcPath destPath =
     catch_p
       (then_p (copyFile srcPath destPath COPYFILE_EXCL)
          (\<lambda>_. console_log [Str (''Created: '' @ destPath)]))
       (\<lambda>error. if code error \<noteq> Some ''EEXIST'' then reject error else resolve ())"

definition prepare :: "('json, 'lc) env \<Rightarrow> unit \<Rightarrow> (unit, world) task" where
  "prepare E = useSpinner ''Preparing'' (\<lambda>_.
     then_p
       (all_p
          [copyIfNonExistent
             (resolvePath E (cwd E) ''tsconfig.json'')
             (resolvePath E (dirname E) ''../../config/tsconfig.plugin.local.json''),
           copyIfNonExistent
             (resolvePath E (cwd E) ''.prettierrc.js'')
             (resolvePath E (dirname E) ''../../config/prettier.plugin.rc.js'')])
       (\<lambda>_. resolve ()))"

subsection \<open>Source discovery: lines 62 and 64\<close>

definition getTypescriptSources :: "('json, 'lc) env \<Rightarrow> (path list, world) task" where
  "getTypescriptSources E w =
     (Inr (globby E (resolvePath E (cwd E) ''src/**/*.+(ts|tsx)'') w), w)"

definition getStylesSources :: "('json, 'lc) env \<Rightarrow> (path list, world) task" where
  "getStylesSources E w =
     (Inr (globby E (resolvePath E (cwd E) ''src/**/*.+(scss|css)'') w), w)"

subsection \<open>Format check: lines 66 to 116\<close>

text \<open>Truthiness of the optional flag, and of \<open>newContents && newContents.length > 10\<close>.\<close>

definition truthy :: "bool option \<Rightarrow> bool" where
  "truthy b = (b = Some True)"

fun long_enough :: "string option \<Rightarrow> bool" where
  "long_enough None = False"
| "long_enough (Some n) = (n \<noteq> [] \<and> 10 < length n)"

text \<open>The promise that \<open>paths.map\<close> builds for one path (lines 75 to 106).\<close>

definition prettier_promise ::
  "('json, 'lc) env \<Rightarrow> bool option \<Rightarrow> 'json \<Rightarrow> path \<Rightarrow> (path \<times> bool, world) task" where
  "prettier_promise E fx prettierConfig path =
     then_p
       (then_p
          (then_p (readFile path)
             (\<lambda>contents.
                let config = (prettierConfig, path) in
                if truthy fx \<and> \<not> prettier_check E contents config
                then (case prettier_format E contents config of
                        Inl e \<Rightarrow> reject e
                      | Inr formatted \<Rightarrow> resolve (Some formatted))
                else resolve None))
          (\<lambda>newContents.
             if truthy fx \<and> long_enough newContents
             then catch_p
                    (then_p (writeFile path (the newContents))
                       (\<lambda>_. then_p (console_log [Str (''Fixed: '' @ path)])
                          (\<lambda>_. resolve True)))
                    (\<lambda>error. then_p (console_log [Str (''Error fixing '' @ path), Err error])
                       (\<lambda>_. resolve False))
             else if truthy fx
             then then_p (console_log [Str (''No automatic fix for: '' @ path)])
                    (\<lambda>_. resolve False)
             else resolve False))
       (\<lambda>success. resolve (path, success))"

definition nl :: string where
  "nl = [CHR 0x0A]"

text \<open>The two promises of lines 67 to 73: the parsed configuration and the paths.\<close>

definition prettierConfig_p :: "('json, 'lc) env \<Rightarrow> ('json, world) task" where
  "prettierConfig_p E =
     then_p (readFile (resolvePath E (dirname E) ''../../config/prettier.plugin.config.json''))
       (\<lambda>contents. case JSON_parse E contents of Inl e \<Rightarrow> reject e | Inr j \<Rightarrow> resolve j)"

definition paths_p :: "('json, 'lc) env \<Rightarrow> (path list, world) task" where
  "paths_p E =
     then_p (all_p [getStylesSources E, getTypescriptSources E])
       (\<lambda>results. resolve (concat results))"

definition prettierCheckPlugin :: "('json, 'lc) env \<Rightarrow> Fixable \<Rightarrow> (unit, world) task" where
  "prettierCheckPlugin E = useSpinner ''Prettier check'' (\<lambda>opts.
     then_p (prettierConfig_p E) (\<lambda>prettierConfig.
     then_p (paths_p E) (\<lambda>paths.
     then_p (all_p (map (prettier_promise E (fix_opt opts) prettierConfig) paths)) (\<lambda>results.
       let failures = filter (\<lambda>(path, success). \<not> success) results in
       if length failures \<noteq> 0
       then then_p (console_log [Str (nl @ ''Fix Prettier issues in following files:'')]) (\<lambda>_.
            then_p (forEach_log failures (\<lambda>(path, success). [Str path])) (\<lambda>_.
            then_p (console_log [Str (nl @ ''Run toolkit:dev to fix errors'')]) (\<lambda>_.
            reject (Error ''Prettier failed''))))
       else resolve ()))))"

subsection \<open>Lint: lines 119 to 161\<close>

text \<open>
  Line 4 binds \<open>fs\<close> to the promise-based namespace of the file-system module
  (\<open>promises as fs\<close>). Line 15 takes \<open>copyFile\<close>, \<open>readFile\<close> and \<open>writeFile\<close> from it.
  That namespace has no synchronous members: \<open>fs.existsSync\<close> and \<open>fs.readFileSync\<close>
  are undefined on it, and calling an undefined member throws a \<open>TypeError\<close>. The
  members the lint task looks up are therefore kept as a record of optional functions.
\<close>

record fs_namespace =
  existsSync :: "(path \<Rightarrow> world \<Rightarrow> bool) option"
  readFileSync :: "(path \<Rightarrow> world \<Rightarrow> error + string) option"

definition fs_promises :: fs_namespace where
  "fs_promises = \<lparr>existsSync = None, readFileSync = None\<rparr>"

text \<open>The synchronous file-system module, for comparison.\<close>

definition fs_sync :: fs_namespace where
  "fs_sync =
     \<lparr>existsSync = Some (\<lambda>p w. files w p \<noteq> None),
      readFileSync = Some (\<lambda>p w. fst (readFile p w))\<rparr>"

definition call_existsSync :: "fs_namespace \<Rightarrow> path \<Rightarrow> (bool, world) task" where
  "call_existsSync fs p w =
     (case existsSync fs of
        None \<Rightarrow> (Inl (TypeError ''fs.existsSync is not a function''), w)
      | Some f \<Rightarrow> (Inr (f p w), w))"

definition call_readFileSync :: "fs_namespace \<Rightarrow> path \<Rightarrow> (string, world) task" where
  "call_readFileSync fs p w =
     (case readFileSync fs of
        None \<Rightarrow> (Inl (TypeError ''fs.readFileSync is not a function''), w)
      | Some f \<Rightarrow> (f p w, w))"

text \<open>
  What \<open>getTypescriptSources()\<close> gives the caller that does not await it: \<open>globby\<close>
  returns a promise, and a promise has no \<open>map\<close>. \<open>Array.prototype.map\<close> with a
  callback that may throw stops at the first exception.
\<close>

datatype sources = Promise "(path list, world) task" | Array "path list"

fun map_sync :: "('a \<Rightarrow> ('b, 's) task) \<Rightarrow> 'a list \<Rightarrow> ('b list, 's) task" where
  "map_sync f [] = resolve []"
| "map_sync f (x # xs) = then_p (f x) (\<lambda>y. then_p (map_sync f xs) (\<lambda>ys. resolve (y # ys)))"

definition sources_map :: "sources \<Rightarrow> (path \<Rightarrow> ('b, world) task) \<Rightarrow> ('b list, world) task" where
  "sources_map v f =
     (case v of
        Promise p \<Rightarrow> reject (TypeError ''sourcesToLint.map is not a function'')
      | Array xs \<Rightarrow> map_sync f xs)"

text \<open>\<open>s.split(sep)\<close> for a non-empty separator, and \<open>xs[i]\<close>, undefined out of range.\<close>

fun split_go :: "string \<Rightarrow> nat \<Rightarrow> string \<Rightarrow> string \<Rightarrow> string list" where
  "split_go sep k acc [] = [rev acc]"
| "split_go sep (Suc k) acc (c # cs) = split_go sep k acc cs"
| "split_go sep 0 acc (c # cs) =
     (if take (length sep) (c # cs) = sep
      then rev acc # split_go sep (length sep - 1) [] cs
      else split_go sep 0 (c # acc) cs)"

definition split :: "string \<Rightarrow> string \<Rightarrow> string list" where
  "split s sep = split_go sep 0 [] s"

fun at_index :: "'a list \<Rightarrow> nat \<Rightarrow> 'a option" where
  "at_index [] i = None"
| "at_index (x # xs) 0 = Some x"
| "at_index (x # xs) (Suc i) = at_index xs i"

text \<open>A value inside a template literal: a number in decimal, undefined by its name.\<close>

function show_nat :: "nat \<Rightarrow> string" where
  "show_nat n =
     (if n < 10 then [''0123456789'' ! n]
      else show_nat (n div 10) @ [''0123456789'' ! (n mod 10)])"
  by pat_completeness auto
termination
  by (relation "measure id") auto

fun show_opt :: "string option \<Rightarrow> string" where
  "show_opt None = ''undefined''"
| "show_opt (Some s) = s"

text \<open>The line printed for one rule failure (lines 150 to 156).\<close>

definition failure_line :: "RuleFailure \<Rightarrow> string" where
  "failure_line f =
     (if getRuleSeverity f = ''warning'' then ''WARNING'' else ''ERROR'') @ '': '' @
     show_opt (at_index (split (getFileName f) ''src'') 1) @
     ''['' @ show_nat (line f + 1) @ '':'' @ show_nat (character f) @ '']: '' @
     getFailure f"

text \<open>
  The body of the lint task, with the \<open>fs\<close> object and the value of
  \<open>getTypescriptSources()\<close> it works on as arguments.
\<close>

definition lintPlugin_body ::
  "fs_namespace \<Rightarrow> sources \<Rightarrow> ('json, 'lc) env \<Rightarrow> Fixable \<Rightarrow> (unit, world) task" where
  "lintPlugin_body fs sourcesToLint E opts =
     then_p (call_existsSync fs (resolvePath E (cwd E) ''tslint.json'')) (\<lambda>ex.
       let tsLintConfigPath =
             (if \<not> ex then resolvePath E (dirname E) ''../../config/tslint.plugin.json''
              else resolvePath E (cwd E) ''tslint.json'');
           options = \<lparr>linter_fix = (fix_opt opts = Some True), formatter = ''json''\<rparr>
       in
       then_p (\<lambda>w. (findConfiguration E tsLintConfigPath w, w)) (\<lambda>configuration.
       then_p (sources_map sourcesToLint (\<lambda>fileName.
                 then_p (call_readFileSync fs fileName) (\<lambda>fileContents.
                   linter_lint E options fileName fileContents configuration))) (\<lambda>results.
         let lintResults =
               filter (\<lambda>result. errorCount result > 0 \<or> warningCount result > 0) results in
         if length lintResults > 0
         then
           let fls = foldl (\<lambda>fls result. fls @ failures result) [] lintResults in
           then_p (console_log [Str nl]) (\<lambda>_.
           then_p (forEach_log fls (\<lambda>f. [Str (failure_line f)])) (\<lambda>_.
           then_p (console_log [Str nl]) (\<lambda>_.
           reject (Error (show_nat (length fls) @ '' linting errors found in '' @
                          show_nat (length lintResults) @ '' files'')))))
         else resolve ())))"

definition lintPlugin :: "('json, 'lc) env \<Rightarrow> Fixable \<Rightarrow> (unit, world) task" where
  "lintPlugin E = useSpinner ''Linting'' (\<lambda>opts.
     lintPlugin_body fs_promises (Promise (getTypescriptSources E)) E opts)"

subsection \<open>The pipeline: lines 163 to 170\<close>

text \<open>
  The six tasks the runner awaits, as arguments, so that the runner can be observed with
  any tasks in their place; \<open>plugin_tasks\<close> are the ones of the module.
\<close>

record 's tasks =
  t_clean :: "unit \<Rightarrow> (unit, 's) task"
  t_prepare :: "unit \<Rightarrow> (unit, 's) task"
  t_prettierCheckPlugin :: "Fixable \<Rightarrow> (unit, 's) task"
  t_lintPlugin :: "Fixable \<Rightarrow> (unit, 's) task"
  t_testPlugin :: "PluginTestOptions \<Rightarrow> (unit, 's) task"
  t_bundlePlugin :: "PluginBundleOptions \<Rightarrow> (unit, 's) task"

definition pluginBuildRunner :: "'s tasks \<Rightarrow> PluginBuildOptions \<Rightarrow> (unit, 's) task" where
  "pluginBuildRunner T opts =
     then_p (t_clean T ()) (\<lambda>_.
     then_p (t_prepare T ()) (\<lambda>_.
     then_p (t_prettierCheckPlugin T \<lparr>fix_opt = Some False\<rparr>) (\<lambda>_.
     then_p (t_lintPlugin T \<lparr>fix_opt = Some False\<rparr>) (\<lambda>_.
     then_p (t_testPlugin T
               \<lparr>updateSnapshot = False, test_coverage = coverage opts, test_watch = False\<rparr>) (\<lambda>_.
     then_p (t_bundlePlugin T \<lparr>watch = False, production = True\<rparr>) (\<lambda>_.
     resolve ()))))))"

definition plugin_tasks :: "('json, 'lc) env \<Rightarrow> world tasks" where
  "plugin_tasks E =
     \<lparr>t_clean = clean E, t_prepare = prepare E,
      t_prettierCheckPlugin = prettierCheckPlugin E, t_lintPlugin = lintPlugin E,
      t_testPlugin = testPlugin E, t_bundlePlugin = bundlePlugin E\<rparr>"

text \<open>A spy on each task: the calls made so far, in order, kept beside the state.\<close>

datatype call =
    Clean
  | Bootstrap
  | FormatCheck Fixable
  | LintCheck Fixable
  | Test PluginTestOptions
  | Bundle PluginBundleOptions

definition spied :: "call \<Rightarrow> (unit, 's) task \<Rightarrow> (unit, call list \<times> 's) task" where
  "spied c t = (\<lambda>(tr, s). case t s of (r, s') \<Rightarrow> (r, (tr @ [c], s')))"

definition spy :: "'s tasks \<Rightarrow> (call list \<times> 's) tasks" where
  "spy T =
     \<lparr>t_clean = (\<lambda>u. spied Clean (t_clean T u)),
      t_prepare = (\<lambda>u. spied Bootstrap (t_prepare T u)),
      t_prettierCheckPlugin = (\<lambda>opts. spied (FormatCheck opts) (t_prettierCheckPlugin T opts)),
      t_lintPlugin = (\<lambda>opts. spied (LintCheck opts) (t_lintPlugin T opts)),
      t_testPlugin = (\<lambda>opts. spied (Test opts) (t_testPlugin T opts)),
      t_bundlePlugin = (\<lambda>opts. spied (Bundle opts) (t_bundlePlugin T opts))\<rparr>"

fun invoke :: "'s tasks \<Rightarrow> call \<Rightarrow> (unit, 's) task" where
  "invoke T Clean = t_clean T ()"
| "invoke T Bootstrap = t_prepare T ()"
| "invoke T (FormatCheck opts) = t_prettierCheckPlugin T opts"
| "invoke T (LintCheck opts) = t_lintPlugin T opts"
| "invoke T (Test opts) = t_testPlugin T opts"
| "invoke T (Bundle opts) = t_bundlePlugin T opts"

text \<open>
  The state machine of section 4.6, in the spec's words: the stages in order, the next
  one only after a success, and on a failure no later stage and that failure as the
  result. It records each stage it invokes.
\<close>

definition stage_calls :: "bool \<Rightarrow> call list" where
  "stage_calls cov =
     [Clean, Bootstrap, FormatCheck \<lparr>fix_opt = Some False\<rparr>, LintCheck \<lparr>fix_opt = Some False\<rparr>,
      Test \<lparr>updateSnapshot = False, test_coverage = cov, test_watch = False\<rparr>,
      Bundle \<lparr>watch = False, production = True\<rparr>]"

fun fail_fast :: "'s tasks \<Rightarrow> call list \<Rightarrow> (unit, call list \<times> 's) task" where
  "fail_fast T [] (tr, s) = (Inr (), (tr, s))"
| "fail_fast T (c # cs) (tr, s) =
     (case invoke T c s of
        (Inl e, s') \<Rightarrow> (Inl e, (tr @ [c], s'))
      | (Inr u, s') \<Rightarrow> fail_fast T cs (tr @ [c], s'))"

text \<open>The paths the format check works on: style sheets first, then the TypeScript sources.\<close>

definition discovered :: "('json, 'lc) env \<Rightarrow> world \<Rightarrow> path list" where
  "discovered E w =
     globby E (resolvePath E (cwd E) ''src/**/*.+(scss|css)'') w @
     globby E (resolvePath E (cwd E) ''src/**/*.+(ts|tsx)'') w"

section \<open>A small project to run the tasks on\<close>

text \<open>
  A formatter given by a table: the content \<open>long\<close> is reformatted to 50 characters,
  \<open>short\<close> to 8 characters, \<open>broken\<close> cannot be parsed, and every other content is
  already formatted.
\<close>

definition table_format :: "string \<Rightarrow> string \<times> path \<Rightarrow> error + string" where
  "table_format c cfg =
     (if c = ''long'' then Inr ''const answer = 42;                               x''
      else if c = ''short'' then Inr ''a = 1;xx''
      else if c = ''broken'' then Inl (Error ''SyntaxError'')
      else Inr c)"

text \<open>
  The project is in \<open>/proj\<close> and the toolkit's tasks in \<open>/kit/tasks\<close>; paths are joined
  without being normalised, which is enough to tell them apart. The arguments are the
  style sheets and the TypeScript sources that discovery finds.
\<close>

definition example_env :: "path list \<Rightarrow> path list \<Rightarrow> (string, string) env" where
  "example_env styles ts =
     \<lparr>cwd = ''/proj'', dirname = ''/kit/tasks'',
      resolvePath = (\<lambda>b r. b @ ''/'' @ r),
      globby = (\<lambda>pat w. if pat = ''/proj/src/**/*.+(ts|tsx)'' then ts
                         else if pat = ''/proj/src/**/*.+(scss|css)'' then styles else []),
      JSON_parse = (\<lambda>s. Inr s),
      prettier_check = (\<lambda>c cfg. c \<noteq> ''long'' \<and> c \<noteq> ''short'' \<and> c \<noteq> ''broken''),
      prettier_format = table_format,
      execa = (\<lambda>cmd args. resolve ()),
      findConfiguration = (\<lambda>p w. Inr p),
      linter_lint = (\<lambda>opts f c cfg.
         resolve
           (if c = ''unused''
            then \<lparr>errorCount = 1, warningCount = 0,
                  failures = [\<lparr>getRuleSeverity = ''error'', getFileName = f, line = 0,
                               character = 6, getFailure = ''unused variable''\<rparr>]\<rparr>
            else \<lparr>errorCount = 0, warningCount = 0, failures = []\<rparr>)),
      testPlugin = (\<lambda>opts. resolve ()),
      bundleFn = (\<lambda>opts. resolve ())\<rparr>"

definition example_world :: "(path \<times> string) list \<Rightarrow> world" where
  "example_world fs =
     \<lparr>files = map_of fs, rfaults = Map.empty, wfaults = Map.empty, console = []\<rparr>"

definition kit_files :: "(path \<times> string) list" where
  "kit_files =
     [(''/kit/tasks/../../config/tsconfig.plugin.local.json'', ''{ local }''),
      (''/kit/tasks/../../config/prettier.plugin.rc.js'', ''module.exports = {};''),
      (''/kit/tasks/../../config/prettier.plugin.config.json'', ''{}'')]"

text \<open>Projects with one or two TypeScript sources, and one whose source is read-only.\<close>

definition env_a :: "(string, string) env" where
  "env_a = example_env [] [''/proj/src/a.ts'']"

definition env_ab :: "(string, string) env" where
  "env_ab = example_env [] [''/proj/src/a.ts'', ''/proj/src/b.ts'']"

definition one_ok :: world where
  "one_ok = example_world (kit_files @ [(''/proj/src/a.ts'', ''const a = 1;'')])"

definition one_long :: world where
  "one_long = example_world (kit_files @ [(''/proj/src/a.ts'', ''long'')])"

definition one_short :: world where
  "one_short = example_world (kit_files @ [(''/proj/src/a.ts'', ''short'')])"

definition one_long_readonly :: world where
  "one_long_readonly = one_long\<lparr>wfaults := [''/proj/src/a.ts'' \<mapsto> SystemError ''EACCES'']\<rparr>"

definition two_mixed :: world where
  "two_mixed =
     example_world (kit_files @
       [(''/proj/src/a.ts'', ''const a = 1;''), (''/proj/src/b.ts'', ''long'')])"

text \<open>A project whose two sources each have one lint error.\<close>

definition two_unused :: world where
  "two_unused =
     example_world (kit_files @
       [(''/proj/src/a.ts'', ''unused''), (''/proj/src/b.ts'', ''unused'')])"

text \<open>
  Six tasks over a counter, to watch the runner: each one counts its call; the lint
  task fails, the others succeed.
\<close>

definition counting_tasks :: "nat tasks" where
  "counting_tasks =
     \<lparr>t_clean = (\<lambda>u n. (Inr (), Suc n)),
      t_prepare = (\<lambda>u n. (Inr (), Suc n)),
      t_prettierCheckPlugin = (\<lambda>opts n. (Inr (), Suc n)),
      t_lintPlugin = (\<lambda>opts n. (Inl (Error ''lint''), Suc n)),
      t_testPlugin = (\<lambda>opts n. (Inr (), Suc n)),
      t_bundlePlugin = (\<lambda>opts n. (Inr (), Suc n))\<rparr>"

section \<open>Abbreviations for the effects of the format check and of the lint task\<close>

text \<open>The state after one more printed line, and after the report of the failing paths.\<close>

definition noted :: "log_arg list \<Rightarrow> world \<Rightarrow> world" where
  "noted l w = w\<lparr>console := console w @ [l]\<rparr>"

definition prettier_report :: "(path \<times> bool) list \<Rightarrow> world \<Rightarrow> world" where
  "prettier_report fails w =
     w\<lparr>console := console w @
          [[Str (nl @ ''Fix Prettier issues in following files:'')]] @
          map (\<lambda>(path, success). [Str path]) fails @
          [[Str (nl @ ''Run toolkit:dev to fix errors'')]]\<rparr>"

text \<open>
  For the lint task: the state after the report of the rule failures, the callback of line 133 for one
  file, and the outcome of lines 139 to 160 for the results of all files.
\<close>

definition lint_report :: "RuleFailure list \<Rightarrow> world \<Rightarrow> world" where
  "lint_report fls w =
     w\<lparr>console := console w @ [[Str nl]] @ map (\<lambda>f. [Str (failure_line f)]) fls @ [[Str nl]]\<rparr>"

definition lint_one ::
  "fs_namespace \<Rightarrow> ('json, 'lc) env \<Rightarrow> Fixable \<Rightarrow> 'lc \<Rightarrow> path \<Rightarrow> (LintResult, world) task" where
  "lint_one fs E opts configuration fileName =
     then_p (call_readFileSync fs fileName) (\<lambda>fileContents.
       linter_lint E \<lparr>linter_fix = (fix_opt opts = Some True), formatter = ''json''\<rparr>
         fileName fileContents configuration)"

definition lint_outcome :: "LintResult list \<Rightarrow> (unit, world) task" where
  "lint_outcome results w =
     (if filter (\<lambda>result. errorCount result > 0 \<or> warningCount result > 0) results \<noteq> []
      then (Inl (Error
              (show_nat (length (concat (map failures
                 (filter (\<lambda>result. errorCount result > 0 \<or> warningCount result > 0) results)))) @
               '' linting errors found in '' @
               show_nat (length
                 (filter (\<lambda>result. errorCount result > 0 \<or> warningCount result > 0) results)) @
               '' files'')),
            lint_report (concat (map failures
              (filter (\<lambda>result. errorCount result > 0 \<or> warningCount result > 0) results))) w)
      else (Inr (), w))"

section \<open>The pipeline is the fail-fast sequence of six stages\<close>

lemma fail_fast_success:
  "fail_fast T cs (tr, s) = (Inr u, tr', s') \<Longrightarrow> tr' = tr @ cs"
proof (induction cs arbitrary: tr s)
  case Nil
  then show ?case by simp
next
  case (Cons c cs)
  from Cons.prems obtain s1 where "fail_fast T cs (tr @ [c], s1) = (Inr u, tr', s')"
    by (auto split: prod.splits sum.splits)
  from Cons.IH[OF this] show ?case by simp
qed

lemma fail_fast_failure:
  "fail_fast T cs (tr, s) = (Inl e, tr', s') \<Longrightarrow>
     \<exists>k<length cs. tr' = tr @ take (Suc k) cs \<and> (\<exists>s0. invoke T (cs ! k) s0 = (Inl e, s'))"
proof (induction cs arbitrary: tr s)
  case Nil
  then show ?case by simp
next
  case (Cons c cs)
  obtain r s1 where step: "invoke T c s = (r, s1)"
    by (cases "invoke T c s")
  show ?case
  proof (cases r)
    case (Inl e1)
    with Cons.prems step have "e = e1" "tr' = tr @ [c]" "s' = s1"
      by simp_all
    with step Inl have "tr' = tr @ take (Suc 0) (c # cs) \<and> invoke T ((c # cs) ! 0) s = (Inl e, s')"
      by simp
    then show ?thesis
      by (intro exI[of _ 0]) auto
  next
    case (Inr u)
    with Cons.prems step have "fail_fast T cs (tr @ [c], s1) = (Inl e, tr', s')"
      by simp
    from Cons.IH[OF this] obtain k s0 where
      k: "k < length cs" "tr' = (tr @ [c]) @ take (Suc k) cs" "invoke T (cs ! k) s0 = (Inl e, s')"
      by blast
    then have "Suc k < length (c # cs) \<and> tr' = tr @ take (Suc (Suc k)) (c # cs) \<and>
               invoke T ((c # cs) ! Suc k) s0 = (Inl e, s')"
      by simp
    then show ?thesis by blast
  qed
qed

lemma runner_is_fail_fast:
  "pluginBuildRunner (spy T) \<lparr>coverage = c\<rparr> (tr, s) = fail_fast T (stage_calls c) (tr, s)"
  by (simp add: pluginBuildRunner_def spy_def spied_def then_p_def stage_calls_def resolve_def
           split: prod.splits sum.splits)

text \<open>
  C1. Whatever the six tasks do and whatever the coverage flag is, a run of the runner
  with a spy on each task is a run of the fail-fast state machine over Clean, Bootstrap,
  FormatCheck(fix=false), LintCheck(fix=false), Test(updateSnapshot=false, coverage,
  watch=false), Bundle(watch=false, production=true). If it succeeds, exactly these six
  calls were made, in this order. If it fails with an error, the calls made are the first
  \<open>k + 1\<close> of them for some stage index \<open>k\<close>, nothing after that stage was invoked,
  and the error and the final state are the ones that stage left.
\<close>

theorem pluginBuildRunner_fail_fast:
  "pluginBuildRunner (spy T) \<lparr>coverage = c\<rparr> ([], s) = fail_fast T (stage_calls c) ([], s) \<and>
   (case pluginBuildRunner (spy T) \<lparr>coverage = c\<rparr> ([], s) of
      (Inr u, tr, s') \<Rightarrow> tr = stage_calls c
    | (Inl e, tr, s') \<Rightarrow>
        (\<exists>k<6. tr = take (Suc k) (stage_calls c) \<and>
                (\<exists>s0. invoke T (stage_calls c ! k) s0 = (Inl e, s'))))"
proof -
  obtain r tr s' where run: "fail_fast T (stage_calls c) ([], s) = (r, tr, s')"
    by (metis prod_cases3)
  have len: "length (stage_calls c) = 6"
    by (simp add: stage_calls_def)
  have "case r of
          Inr u \<Rightarrow> tr = stage_calls c
        | Inl e \<Rightarrow> (\<exists>k<6. tr = take (Suc k) (stage_calls c) \<and>
                          (\<exists>s0. invoke T (stage_calls c ! k) s0 = (Inl e, s')))"
  proof (cases r)
    case (Inl e)
    with fail_fast_failure[of T "stage_calls c" "[]" s e tr s'] run len show ?thesis
      by simp
  next
    case (Inr u)
    with fail_fast_success[of T "stage_calls c" "[]" s u tr s'] run show ?thesis
      by simp
  qed
  with run show ?thesis
    by (simp add: runner_is_fail_fast split: sum.splits)
qed

theorem pluginBuildRunner_fail_fast_witness:
  "pluginBuildRunner (spy counting_tasks) \<lparr>coverage = True\<rparr> ([], 0) =
     (Inl (Error ''lint''),
      [Clean, Bootstrap, FormatCheck \<lparr>fix_opt = Some False\<rparr>, LintCheck \<lparr>fix_opt = Some False\<rparr>], 4)
   \<and> (\<exists>k<6. [Clean, Bootstrap, FormatCheck \<lparr>fix_opt = Some False\<rparr>,
              LintCheck \<lparr>fix_opt = Some False\<rparr>] = take (Suc k) (stage_calls True) \<and>
            (\<exists>s0. invoke counting_tasks (stage_calls True ! k) s0 = (Inl (Error ''lint''), 4)))"
proof -
  have run: "pluginBuildRunner (spy counting_tasks) \<lparr>coverage = True\<rparr> ([], 0) =
     (Inl (Error ''lint''),
      [Clean, Bootstrap, FormatCheck \<lparr>fix_opt = Some False\<rparr>, LintCheck \<lparr>fix_opt = Some False\<rparr>], 4)"
    by (simp add: pluginBuildRunner_def spy_def spied_def then_p_def counting_tasks_def)
  from pluginBuildRunner_fail_fast[of counting_tasks True 0] show ?thesis
    unfolding run by simp
qed

section \<open>Bootstrap: the exclusive copy and the two files of the stage\<close>

lemma copyFile_excl_cases:
  "copyFile s d COPYFILE_EXCL w = (r, w') \<Longrightarrow>
     (r \<noteq> Inr () \<and> w' = w) \<or>
     (r = Inr () \<and> files w d = None \<and> rfaults w s = None \<and> wfaults w d = None \<and>
      (\<exists>c. files w s = Some c \<and> w' = w\<lparr>files := (files w)(d \<mapsto> c)\<rparr>))"
  by (auto simp: copyFile_def split: option.splits if_splits)

lemma copyIfNonExistent_unfold:
  "copyIfNonExistent s d w =
     (case copyFile s d COPYFILE_EXCL w of
        (Inr u, w') \<Rightarrow> (Inr (), w'\<lparr>console := console w' @ [[Str (''Created: '' @ d)]]\<rparr>)
      | (Inl e, w') \<Rightarrow> if code e = Some ''EEXIST'' then (Inr (), w') else (Inl e, w'))"
  by (simp add: copyIfNonExistent_def catch_p_def then_p_def console_log_def reject_def
        resolve_def split: prod.splits sum.splits)

lemma copyIfNonExistent_files:
  "files (snd (copyIfNonExistent s d w)) =
     (case copyFile s d COPYFILE_EXCL w of
        (Inr u, w') \<Rightarrow> (files w)(d \<mapsto> the (files w s))
      | (Inl e, w') \<Rightarrow> files w)"
  by (auto simp: copyIfNonExistent_unfold copyFile_def split: option.splits prod.splits sum.splits)

lemma copyIfNonExistent_faults:
  "rfaults (snd (copyIfNonExistent s d w)) = rfaults w \<and>
   wfaults (snd (copyIfNonExistent s d w)) = wfaults w"
  by (auto simp: copyIfNonExistent_unfold copyFile_def split: option.splits prod.splits sum.splits)

lemma copyIfNonExistent_keeps_existing:
  "files w d = Some c \<Longrightarrow> files (snd (copyIfNonExistent s d w)) = files w"
  by (auto simp: copyIfNonExistent_unfold copyFile_def split: option.splits prod.splits sum.splits)

lemma copyIfNonExistent_same_or_created:
  "snd (copyIfNonExistent s d w) = w \<or> (\<exists>c. files (snd (copyIfNonExistent s d w)) d = Some c)"
  by (auto simp: copyIfNonExistent_unfold copyFile_def split: option.splits prod.splits sum.splits if_splits)

lemma copyIfNonExistent_second:
  "files (snd (copyIfNonExistent s d (snd (copyIfNonExistent s d w)))) =
   files (snd (copyIfNonExistent s d w))"
  using copyIfNonExistent_same_or_created[of s d w]
proof
  assume "snd (copyIfNonExistent s d w) = w"
  then show ?thesis by simp
next
  assume "\<exists>c. files (snd (copyIfNonExistent s d w)) d = Some c"
  then obtain c where "files (snd (copyIfNonExistent s d w)) d = Some c" ..
  then show ?thesis
    by (rule copyIfNonExistent_keeps_existing)
qed

text \<open>
  C9. The ensure operation is idempotent on the destination: for every state of the
  file system (and whatever the source path is), the content of the destination after
  a second call in a row is its content after the first call; and a destination that
  exists, with whatever content, keeps that content.
\<close>

theorem copyIfNonExistent_idempotent:
  "files (snd (copyIfNonExistent srcPath destPath (snd (copyIfNonExistent srcPath destPath w)))) destPath =
     files (snd (copyIfNonExistent srcPath destPath w)) destPath \<and>
   (files w destPath = Some c \<longrightarrow>
      files (snd (copyIfNonExistent srcPath destPath w)) destPath = Some c)"
  by (simp add: copyIfNonExistent_second copyIfNonExistent_keeps_existing)

theorem copyIfNonExistent_idempotent_witness:
  "files (example_world [(''/t'', ''template''), (''/d'', ''mine'')]) ''/d'' = Some ''mine'' \<and>
   files (snd (copyIfNonExistent ''/t'' ''/d''
           (example_world [(''/t'', ''template''), (''/d'', ''mine'')]))) ''/d'' = Some ''mine''"
proof -
  have h: "files (example_world [(''/t'', ''template''), (''/d'', ''mine'')]) ''/d'' = Some ''mine''"
    by (simp add: example_world_def)
  from copyIfNonExistent_idempotent[of "''/t''" "''/d''"
      "example_world [(''/t'', ''template''), (''/d'', ''mine'')]" "''mine''"] h
  show ?thesis by blast
qed

lemma all_p_two:
  "all_p [p, q] w =
     (case p w of (r1, w1) \<Rightarrow> case q w1 of (r2, w2) \<Rightarrow>
        ((case r1 of Inl e \<Rightarrow> Inl e
          | Inr x \<Rightarrow> (case r2 of Inl e \<Rightarrow> Inl e | Inr y \<Rightarrow> Inr [x, y])), w2))"
  by (simp split: prod.splits sum.splits)

text \<open>
  C8 as stated fails when the source of the copy is missing: the destination exists, yet
  the copy fails with \<open>ENOENT\<close>, which is not \<open>EEXIST\<close> and is re-raised (line 36).
\<close>

theorem copyIfNonExistent_missing_source_counterexample:
  "files (example_world [(''/d'', ''mine'')]) ''/d'' = Some ''mine'' \<and>
   copyIfNonExistent ''/missing'' ''/d'' (example_world [(''/d'', ''mine'')]) =
     (Inl (SystemError ''ENOENT''), example_world [(''/d'', ''mine'')])"
  by (simp add: copyIfNonExistent_unfold copyFile_def example_world_def)

text \<open>
  C8, as amended. The ensure operation is one exclusive copy, and its outcome is decided
  for every outcome of that copy: a copy that succeeds gives success (and the line
  \<open>Created\<close>); a copy that fails with \<open>EEXIST\<close> gives success with the state untouched
  and nothing printed; a copy that fails with any other error rejects with that same
  error. When the source exists and can be read and the destination exists, the copy
  does fail with \<open>EEXIST\<close> and the operation is such a silent no-op, whatever the
  permissions of the destination. When the source is missing the operation rejects
  with \<open>ENOENT\<close>, whether the destination exists or not. The Bootstrap stage runs the
  two ensure operations and succeeds exactly when both of them succeed or are no-ops.
\<close>

theorem copyIfNonExistent_outcomes:
  "(case copyFile srcPath destPath COPYFILE_EXCL w of
      (Inr u, w') \<Rightarrow>
        copyIfNonExistent srcPath destPath w =
          (Inr (), w'\<lparr>console := console w' @ [[Str (''Created: '' @ destPath)]]\<rparr>)
    | (Inl e, w') \<Rightarrow>
        if code e = Some ''EEXIST''
        then copyIfNonExistent srcPath destPath w = (Inr (), w)
        else copyIfNonExistent srcPath destPath w = (Inl e, w)) \<and>
   (rfaults w srcPath = None \<and> files w srcPath \<noteq> None \<and> files w destPath \<noteq> None \<longrightarrow>
      copyFile srcPath destPath COPYFILE_EXCL w = (Inl (SystemError ''EEXIST''), w) \<and>
      copyIfNonExistent srcPath destPath w = (Inr (), w)) \<and>
   (rfaults w srcPath = None \<and> files w srcPath = None \<longrightarrow>
      copyIfNonExistent srcPath destPath w = (Inl (SystemError ''ENOENT''), w)) \<and>
   (let first = copyIfNonExistent
                  (resolvePath E (cwd E) ''tsconfig.json'')
                  (resolvePath E (dirname E) ''../../config/tsconfig.plugin.local.json'') w;
        second = copyIfNonExistent
                  (resolvePath E (cwd E) ''.prettierrc.js'')
                  (resolvePath E (dirname E) ''../../config/prettier.plugin.rc.js'') (snd first)
    in snd (prepare E () w) = snd second \<and>
       (fst (prepare E () w) = Inr ()) = (fst first = Inr () \<and> fst second = Inr ()))"
proof (intro conjI)
  show "case copyFile srcPath destPath COPYFILE_EXCL w of
      (Inr u, w') \<Rightarrow>
        copyIfNonExistent srcPath destPath w =
          (Inr (), w'\<lparr>console := console w' @ [[Str (''Created: '' @ destPath)]]\<rparr>)
    | (Inl e, w') \<Rightarrow>
        if code e = Some ''EEXIST''
        then copyIfNonExistent srcPath destPath w = (Inr (), w)
        else copyIfNonExistent srcPath destPath w = (Inl e, w)"
    using copyFile_excl_cases[of srcPath destPath w]
    by (auto simp: copyIfNonExistent_unfold split: prod.splits sum.splits)
  show "rfaults w srcPath = None \<and> files w srcPath \<noteq> None \<and> files w destPath \<noteq> None \<longrightarrow>
      copyFile srcPath destPath COPYFILE_EXCL w = (Inl (SystemError ''EEXIST''), w) \<and>
      copyIfNonExistent srcPath destPath w = (Inr (), w)"
    by (auto simp: copyIfNonExistent_unfold copyFile_def)
  show "rfaults w srcPath = None \<and> files w srcPath = None \<longrightarrow>
      copyIfNonExistent srcPath destPath w = (Inl (SystemError ''ENOENT''), w)"
    by (auto simp: copyIfNonExistent_unfold copyFile_def)
  show "let first = copyIfNonExistent
                  (resolvePath E (cwd E) ''tsconfig.json'')
                  (resolvePath E (dirname E) ''../../config/tsconfig.plugin.local.json'') w;
        second = copyIfNonExistent
                  (resolvePath E (cwd E) ''.prettierrc.js'')
                  (resolvePath E (dirname E) ''../../config/prettier.plugin.rc.js'') (snd first)
    in snd (prepare E () w) = snd second \<and>
       (fst (prepare E () w) = Inr ()) = (fst first = Inr () \<and> fst second = Inr ())"
    by (simp add: prepare_def useSpinner_def then_p_def all_p_two resolve_def Let_def
          split: prod.splits sum.splits)
qed

theorem copyIfNonExistent_outcomes_witness:
  "(rfaults (example_world [(''/t'', ''template''), (''/d'', ''mine'')]) ''/t'' = None \<and>
    files (example_world [(''/t'', ''template''), (''/d'', ''mine'')]) ''/t'' \<noteq> None \<and>
    files (example_world [(''/t'', ''template''), (''/d'', ''mine'')]) ''/d'' \<noteq> None) \<and>
   copyIfNonExistent ''/t'' ''/d'' (example_world [(''/t'', ''template''), (''/d'', ''mine'')]) =
     (Inr (), example_world [(''/t'', ''template''), (''/d'', ''mine'')]) \<and>
   (rfaults (example_world [(''/d'', ''mine'')]) ''/missing'' = None \<and>
    files (example_world [(''/d'', ''mine'')]) ''/missing'' = None) \<and>
   copyIfNonExistent ''/missing'' ''/d'' (example_world [(''/d'', ''mine'')]) =
     (Inl (SystemError ''ENOENT''), example_world [(''/d'', ''mine'')])"
proof -
  let ?w = "example_world [(''/t'', ''template''), (''/d'', ''mine'')]"
  let ?v = "example_world [(''/d'', ''mine'')]"
  have h: "rfaults ?w ''/t'' = None \<and> files ?w ''/t'' \<noteq> None \<and> files ?w ''/d'' \<noteq> None"
    by (simp add: example_world_def)
  have g: "rfaults ?v ''/missing'' = None \<and> files ?v ''/missing'' = None"
    by (simp add: example_world_def)
  from copyIfNonExistent_outcomes[of "''/t''" "''/d''" ?w] h
  have c1: "copyIfNonExistent ''/t'' ''/d'' ?w = (Inr (), ?w)"
    by blast
  from copyIfNonExistent_outcomes[of "''/missing''" "''/d''" ?v] g
  have c2: "copyIfNonExistent ''/missing'' ''/d'' ?v = (Inl (SystemError ''ENOENT''), ?v)"
    by blast
  from h g c1 c2 show ?thesis by blast
qed

text \<open>Whatever the state, the stage writes nowhere but at the two bundled template paths.\<close>

lemma copyIfNonExistent_other:
  "p \<noteq> d \<Longrightarrow> files (snd (copyIfNonExistent s d w)) p = files w p"
  by (simp add: copyIfNonExistent_files split: prod.splits sum.splits)

lemma prepare_only_writes_templates:
  assumes "p \<noteq> resolvePath E (dirname E) ''../../config/tsconfig.plugin.local.json''"
    and "p \<noteq> resolvePath E (dirname E) ''../../config/prettier.plugin.rc.js''"
  shows "files (snd (prepare E () w)) p = files w p"
proof -
  have "snd (prepare E () w) =
          snd (copyIfNonExistent
                 (resolvePath E (cwd E) ''.prettierrc.js'')
                 (resolvePath E (dirname E) ''../../config/prettier.plugin.rc.js'')
                 (snd (copyIfNonExistent
                         (resolvePath E (cwd E) ''tsconfig.json'')
                         (resolvePath E (dirname E) ''../../config/tsconfig.plugin.local.json'') w)))"
    by (simp add: prepare_def useSpinner_def then_p_def all_p_two resolve_def
          split: prod.splits sum.splits)
  with assms show ?thesis
    by (simp add: copyIfNonExistent_other)
qed

text \<open>
  C3. The claim is that Bootstrap copies the bundled template to the project root when
  the project-root file is missing. Lines 43 to 50 pass the project-root path as the
  source and the bundled template as the destination, against the comments of lines 42
  and 47. In a project that has neither \<open>tsconfig.json\<close> nor \<open>.prettierrc.js\<close>, with
  the bundled templates in place, the stage fails with \<open>ENOENT\<close> (the source of the copy
  is the missing project file) and creates nothing in the project.
\<close>

theorem prepare_does_not_seed_project:
  "prepare (example_env [] []) () (example_world kit_files) =
     (Inl (SystemError ''ENOENT''), example_world kit_files) \<and>
   files (example_world kit_files) ''/proj/tsconfig.json'' = None \<and>
   files (example_world kit_files) ''/proj/.prettierrc.js'' = None \<and>
   files (example_world kit_files) ''/kit/tasks/../../config/tsconfig.plugin.local.json'' =
     Some ''{ local }''"
  by (simp add: prepare_def useSpinner_def then_p_def copyIfNonExistent_unfold copyFile_def
        example_env_def example_world_def kit_files_def)

section \<open>Format check: one promise per file, then the report\<close>

lemma readFile_snd: "snd (readFile p w) = w"
  by (simp add: readFile_def split: option.splits)

lemma readFile_ok:
  "(fst (readFile p w) = Inr c) = (rfaults w p = None \<and> files w p = Some c)"
  by (auto simp: readFile_def split: option.splits)

lemma noted_simps [simp]:
  "files (noted l w) = files w" "rfaults (noted l w) = rfaults w"
  "wfaults (noted l w) = wfaults w" "console (noted l w) = console w @ [l]"
  by (simp_all add: noted_def)

lemma prettier_promise_unfold:
  "prettier_promise E fx cfg path w =
     (case fst (readFile path w) of
        Inl e \<Rightarrow> (Inl e, w)
      | Inr c \<Rightarrow>
          if truthy fx \<and> \<not> prettier_check E c (cfg, path)
          then (case prettier_format E c (cfg, path) of
                  Inl e \<Rightarrow> (Inl e, w)
                | Inr n \<Rightarrow>
                    if 10 < length n
                    then (case wfaults w path of
                            Some e \<Rightarrow>
                              (Inr (path, False), noted [Str (''Error fixing '' @ path), Err e] w)
                          | None \<Rightarrow>
                              (Inr (path, True),
                               noted [Str (''Fixed: '' @ path)] (w\<lparr>files := (files w)(path \<mapsto> n)\<rparr>)))
                    else (Inr (path, False), noted [Str (''No automatic fix for: '' @ path)] w))
          else if truthy fx
          then (Inr (path, False), noted [Str (''No automatic fix for: '' @ path)] w)
          else (Inr (path, False), w))"
proof -
  obtain r where r: "readFile path w = (r, w)"
    by (metis readFile_snd prod.collapse)
  show ?thesis
    by (cases r)
       (auto simp: prettier_promise_def then_p_def catch_p_def r resolve_def reject_def
          console_log_def writeFile_def noted_def Let_def
          split: sum.splits option.splits)
qed


lemma forEach_log_eq:
  "forEach_log xs f w = (Inr (), w\<lparr>console := console w @ map f xs\<rparr>)"
  by (induction xs arbitrary: w) (simp_all add: resolve_def then_p_def console_log_def)

lemma readFile_eq: "readFile p w = (fst (readFile p w), w)"
  by (metis readFile_snd prod.collapse)

lemma prettierConfig_p_snd: "snd (prettierConfig_p E w) = w"
  by (subst prettierConfig_p_def, subst then_p_def, subst readFile_eq)
     (simp add: reject_def resolve_def split: sum.splits)

lemma paths_p_eq: "paths_p E w = (Inr (discovered E w), w)"
  by (simp add: paths_p_def then_p_def getStylesSources_def getTypescriptSources_def
        resolve_def discovered_def)

lemma prettierCheckPlugin_unfold:
  "prettierCheckPlugin E opts w =
     (case fst (prettierConfig_p E w) of
        Inl e \<Rightarrow> (Inl e, w)
      | Inr cfg \<Rightarrow>
          (case all_p (map (prettier_promise E (fix_opt opts) cfg) (discovered E w)) w of
             (Inl e, w') \<Rightarrow> (Inl e, w')
           | (Inr results, w') \<Rightarrow>
               if filter (\<lambda>(path, success). \<not> success) results \<noteq> []
               then (Inl (Error ''Prettier failed''),
                     prettier_report (filter (\<lambda>(path, success). \<not> success) results) w')
               else (Inr (), w')))"
proof -
  have cfg: "prettierConfig_p E w = (fst (prettierConfig_p E w), w)"
    by (metis prettierConfig_p_snd prod.collapse)
  show ?thesis
    apply (simp add: prettierCheckPlugin_def useSpinner_def)
    apply (subst then_p_def)
    apply (subst cfg)
    apply (simp add: then_p_def paths_p_eq forEach_log_eq console_log_def reject_def
             resolve_def prettier_report_def Let_def split: sum.splits prod.splits)
    done
qed

subsection \<open>What one promise may change\<close>

lemma prettier_promise_shape:
  "prettier_promise E fx cfg q w = (r, w') \<Longrightarrow>
     w' = w \<or> (\<exists>l. w' = noted l w) \<or>
     (truthy fx \<and>
      (\<exists>c n. fst (readFile q w) = Inr c \<and> \<not> prettier_check E c (cfg, q) \<and>
         prettier_format E c (cfg, q) = Inr n \<and> 10 < length n \<and> wfaults w q = None \<and>
         r = Inr (q, True) \<and>
         w' = noted [Str (''Fixed: '' @ q)] (w\<lparr>files := (files w)(q \<mapsto> n)\<rparr>)))"
  unfolding prettier_promise_unfold
  by (simp split: sum.splits if_splits option.splits) blast+

lemma prettier_promise_faults:
  "prettier_promise E fx cfg q w = (r, w') \<Longrightarrow> rfaults w' = rfaults w \<and> wfaults w' = wfaults w"
  by (drule prettier_promise_shape) (elim disjE exE conjE, simp_all)

lemma prettier_promise_change:
  assumes "prettier_promise E fx cfg q w = (r, w')" and "files w' p \<noteq> files w p"
  shows "truthy fx \<and> p = q \<and>
     (\<exists>c n. \<not> prettier_check E c (cfg, p) \<and> prettier_format E c (cfg, p) = Inr n \<and>
            10 < length n \<and> files w' p = Some n)"
  using prettier_promise_shape[OF assms(1)]
proof (elim disjE exE conjE)
  assume "w' = w"
  with assms(2) show ?thesis by simp
next
  fix l assume "w' = noted l w"
  with assms(2) show ?thesis by simp
next
  fix c n
  assume fx: "truthy fx" and c: "\<not> prettier_check E c (cfg, q)"
    and n: "prettier_format E c (cfg, q) = Inr n" "10 < length n"
    and w': "w' = noted [Str (''Fixed: '' @ q)] (w\<lparr>files := (files w)(q \<mapsto> n)\<rparr>)"
  from w' assms(2) have "p = q"
    by (cases "p = q") simp_all
  with fx c n w' show ?thesis by auto
qed


lemma all_p_change:
  "all_p (map (prettier_promise E fx cfg) ps) w = (r, w') \<Longrightarrow> files w' p \<noteq> files w p \<Longrightarrow>
     truthy fx \<and> p \<in> set ps \<and>
     (\<exists>c n. \<not> prettier_check E c (cfg, p) \<and> prettier_format E c (cfg, p) = Inr n \<and>
            10 < length n \<and> files w' p = Some n)"
proof (induction ps arbitrary: w r)
  case Nil
  then show ?case by simp
next
  case (Cons q ps)
  obtain r1 w1 where one: "prettier_promise E fx cfg q w = (r1, w1)"
    by (cases "prettier_promise E fx cfg q w")
  obtain rs w2 where rest0: "all_p (map (prettier_promise E fx cfg) ps) w1 = (rs, w2)"
    by (cases "all_p (map (prettier_promise E fx cfg) ps) w1")
  from Cons.prems(1) one rest0 have "w2 = w'" by simp
  with rest0 have rest: "all_p (map (prettier_promise E fx cfg) ps) w1 = (rs, w')" by simp
  show ?case
  proof (cases "files w' p = files w1 p")
    case True
    with Cons.prems(2) have "files w1 p \<noteq> files w p" by simp
    from prettier_promise_change[OF one this] True show ?thesis by auto
  next
    case False
    from Cons.IH[OF rest False] show ?thesis by auto
  qed
qed

lemma prettier_promise_change_read:
  assumes "prettier_promise E fx cfg q w = (r, w')" and "files w' p \<noteq> files w p"
  shows "p = q \<and>
     (\<exists>c n. fst (readFile p w) = Inr c \<and> \<not> prettier_check E c (cfg, p) \<and>
            prettier_format E c (cfg, p) = Inr n \<and> 10 < length n \<and> files w' p = Some n)"
  using prettier_promise_shape[OF assms(1)]
proof (elim disjE exE conjE)
  assume "w' = w"
  with assms(2) show ?thesis by simp
next
  fix l assume "w' = noted l w"
  with assms(2) show ?thesis by simp
next
  fix c n
  assume rd: "fst (readFile q w) = Inr c" and c: "\<not> prettier_check E c (cfg, q)"
    and n: "prettier_format E c (cfg, q) = Inr n" "10 < length n"
    and w': "w' = noted [Str (''Fixed: '' @ q)] (w\<lparr>files := (files w)(q \<mapsto> n)\<rparr>)"
  from w' assms(2) have "p = q"
    by (cases "p = q") simp_all
  with rd c n w' show ?thesis by auto
qed

lemma readFile_same:
  "files w1 p = files w p \<Longrightarrow> rfaults w1 = rfaults w \<Longrightarrow>
   fst (readFile p w1) = fst (readFile p w)"
  by (simp add: readFile_def split: option.splits)

lemma all_p_change_needed:
  "all_p (map (prettier_promise E fx cfg) ps) w = (r, w') \<Longrightarrow> files w' p \<noteq> files w p \<Longrightarrow>
     \<exists>c. fst (readFile p w) = Inr c \<and> \<not> prettier_check E c (cfg, p)"
proof (induction ps arbitrary: w r)
  case Nil
  then show ?case by simp
next
  case (Cons q ps)
  obtain r1 w1 where one: "prettier_promise E fx cfg q w = (r1, w1)"
    by (cases "prettier_promise E fx cfg q w")
  obtain rs w2 where rest0: "all_p (map (prettier_promise E fx cfg) ps) w1 = (rs, w2)"
    by (cases "all_p (map (prettier_promise E fx cfg) ps) w1")
  from Cons.prems(1) one rest0 have "w2 = w'" by simp
  with rest0 have rest: "all_p (map (prettier_promise E fx cfg) ps) w1 = (rs, w')" by simp
  show ?case
  proof (cases "files w1 p = files w p")
    case False
    from prettier_promise_change_read[OF one False] show ?thesis by auto
  next
    case True
    with Cons.prems(2) have "files w' p \<noteq> files w1 p" by simp
    from Cons.IH[OF rest this] obtain c where
      c: "fst (readFile p w1) = Inr c" "\<not> prettier_check E c (cfg, p)" by auto
    have "rfaults w1 = rfaults w"
      using prettier_promise_faults[OF one] by simp
    from readFile_same[OF True this] c(1) have "fst (readFile p w) = Inr c" by simp
    with c(2) show ?thesis by blast
  qed
qed

lemma all_p_change_distinct:
  "distinct ps \<Longrightarrow> all_p (map (prettier_promise E fx cfg) ps) w = (r, w') \<Longrightarrow>
   files w' p \<noteq> files w p \<Longrightarrow>
     \<exists>c n. fst (readFile p w) = Inr c \<and> \<not> prettier_check E c (cfg, p) \<and>
           prettier_format E c (cfg, p) = Inr n \<and> 10 < length n \<and> files w' p = Some n"
proof (induction ps arbitrary: w r)
  case Nil
  then show ?case by simp
next
  case (Cons q ps)
  obtain r1 w1 where one: "prettier_promise E fx cfg q w = (r1, w1)"
    by (cases "prettier_promise E fx cfg q w")
  obtain rs w2 where rest0: "all_p (map (prettier_promise E fx cfg) ps) w1 = (rs, w2)"
    by (cases "all_p (map (prettier_promise E fx cfg) ps) w1")
  from Cons.prems(2) one rest0 have "w2 = w'" by simp
  with rest0 have rest: "all_p (map (prettier_promise E fx cfg) ps) w1 = (rs, w')" by simp
  from Cons.prems(1) have dist: "distinct ps" and fresh: "q \<notin> set ps" by simp_all
  show ?case
  proof (cases "files w1 p = files w p")
    case False
    from prettier_promise_change_read[OF one False] obtain c n where
      pq: "p = q" and c: "fst (readFile p w) = Inr c" "\<not> prettier_check E c (cfg, p)"
        "prettier_format E c (cfg, p) = Inr n" "10 < length n" "files w1 p = Some n"
      by auto
    have "files w' p = files w1 p"
    proof (rule ccontr)
      assume "files w' p \<noteq> files w1 p"
      from all_p_change[OF rest this] have "p \<in> set ps" by simp
      with pq fresh show False by simp
    qed
    with c show ?thesis by auto
  next
    case True
    with Cons.prems(3) have "files w' p \<noteq> files w1 p" by simp
    from Cons.IH[OF dist rest this] obtain c n where
      c: "fst (readFile p w1) = Inr c" "\<not> prettier_check E c (cfg, p)"
        "prettier_format E c (cfg, p) = Inr n" "10 < length n" "files w' p = Some n" by auto
    have "rfaults w1 = rfaults w"
      using prettier_promise_faults[OF one] by simp
    from readFile_same[OF True this] c(1) have "fst (readFile p w) = Inr c" by simp
    with c(2-5) show ?thesis by blast
  qed
qed

text \<open>
  C5. For every environment, every set of discovered files and every content: when the
  fix flag is not true (false or absent), the content of every file after the format
  stage is its content before, whether the stage succeeds or fails. In general, a file
  whose content differs after the stage was discovered, the fix flag was true, the
  content it had before the stage failed the format check (it needed a fix), and its new
  content is output of the formatter, longer than 10 characters, for a content that
  failed the check (it received a valid fix); when no path is discovered twice, the new
  content is the formatter's output for the very content the file had before the stage.
\<close>

theorem prettierCheckPlugin_writes:
  "(fix_opt opts \<noteq> Some True \<longrightarrow> files (snd (prettierCheckPlugin E opts w)) = files w) \<and>
   (\<forall>p. files (snd (prettierCheckPlugin E opts w)) p \<noteq> files w p \<longrightarrow>
      fix_opt opts = Some True \<and> p \<in> set (discovered E w) \<and>
      (\<exists>cfg c. fst (prettierConfig_p E w) = Inr cfg \<and>
         fst (readFile p w) = Inr c \<and> \<not> prettier_check E c (cfg, p) \<and>
         (\<exists>c' n. \<not> prettier_check E c' (cfg, p) \<and> prettier_format E c' (cfg, p) = Inr n \<and>
            10 < length n \<and> files (snd (prettierCheckPlugin E opts w)) p = Some n) \<and>
         (distinct (discovered E w) \<longrightarrow>
            (\<exists>n. prettier_format E c (cfg, p) = Inr n \<and> 10 < length n \<and>
               files (snd (prettierCheckPlugin E opts w)) p = Some n))))"
proof -
  have changed: "fix_opt opts = Some True \<and> p \<in> set (discovered E w) \<and>
      (\<exists>cfg c. fst (prettierConfig_p E w) = Inr cfg \<and>
         fst (readFile p w) = Inr c \<and> \<not> prettier_check E c (cfg, p) \<and>
         (\<exists>c' n. \<not> prettier_check E c' (cfg, p) \<and> prettier_format E c' (cfg, p) = Inr n \<and>
            10 < length n \<and> files (snd (prettierCheckPlugin E opts w)) p = Some n) \<and>
         (distinct (discovered E w) \<longrightarrow>
            (\<exists>n. prettier_format E c (cfg, p) = Inr n \<and> 10 < length n \<and>
               files (snd (prettierCheckPlugin E opts w)) p = Some n)))"
    if neq: "files (snd (prettierCheckPlugin E opts w)) p \<noteq> files w p" for p
  proof (cases "fst (prettierConfig_p E w)")
    case (Inl e)
    with neq show ?thesis
      by (simp add: prettierCheckPlugin_unfold)
  next
    case (Inr cfg)
    obtain r w' where run:
      "all_p (map (prettier_promise E (fix_opt opts) cfg) (discovered E w)) w = (r, w')"
      by (cases "all_p (map (prettier_promise E (fix_opt opts) cfg) (discovered E w)) w")
    have same: "files (snd (prettierCheckPlugin E opts w)) = files w'"
      by (simp add: prettierCheckPlugin_unfold Inr run prettier_report_def split: sum.splits)
    with neq have ch: "files w' p \<noteq> files w p" by simp
    from all_p_change[OF run ch] have
      a: "fix_opt opts = Some True" "p \<in> set (discovered E w)"
        "\<exists>c' n. \<not> prettier_check E c' (cfg, p) \<and> prettier_format E c' (cfg, p) = Inr n \<and>
            10 < length n \<and> files w' p = Some n"
      by (auto simp: truthy_def)
    from all_p_change_needed[OF run ch] obtain c where
      c: "fst (readFile p w) = Inr c" "\<not> prettier_check E c (cfg, p)" by auto
    have d: "\<exists>n. prettier_format E c (cfg, p) = Inr n \<and> 10 < length n \<and> files w' p = Some n"
      if "distinct (discovered E w)"
      using all_p_change_distinct[OF that run ch] c(1) by auto
    from a c d Inr same show ?thesis
      by auto
  qed
  show ?thesis
  proof (intro conjI allI impI)
    assume "fix_opt opts \<noteq> Some True"
    with changed show "files (snd (prettierCheckPlugin E opts w)) = files w"
      by (intro ext) blast
  next
    fix p assume "files (snd (prettierCheckPlugin E opts w)) p \<noteq> files w p"
    from changed[OF this] show "fix_opt opts = Some True" by simp
  next
    fix p assume "files (snd (prettierCheckPlugin E opts w)) p \<noteq> files w p"
    from changed[OF this] show "p \<in> set (discovered E w)" by simp
  next
    fix p assume "files (snd (prettierCheckPlugin E opts w)) p \<noteq> files w p"
    from changed[OF this] show "\<exists>cfg c. fst (prettierConfig_p E w) = Inr cfg \<and>
         fst (readFile p w) = Inr c \<and> \<not> prettier_check E c (cfg, p) \<and>
         (\<exists>c' n. \<not> prettier_check E c' (cfg, p) \<and> prettier_format E c' (cfg, p) = Inr n \<and>
            10 < length n \<and> files (snd (prettierCheckPlugin E opts w)) p = Some n) \<and>
         (distinct (discovered E w) \<longrightarrow>
            (\<exists>n. prettier_format E c (cfg, p) = Inr n \<and> 10 < length n \<and>
               files (snd (prettierCheckPlugin E opts w)) p = Some n))" by simp
  qed
qed

lemma prettier_promise_conforming:
  "fst (readFile path w) = Inr c \<Longrightarrow> prettier_check E c (cfg, path) \<Longrightarrow>
   prettier_promise E (Some True) cfg path w =
     (Inr (path, False), noted [Str (''No automatic fix for: '' @ path)] w)"
  by (simp add: prettier_promise_unfold truthy_def)

lemma all_p_conforming:
  "\<forall>p\<in>set ps. \<exists>c. fst (readFile p w) = Inr c \<and> prettier_check E c (cfg, p) \<Longrightarrow>
   \<exists>w'. all_p (map (prettier_promise E (Some True) cfg) ps) w =
           (Inr (map (\<lambda>p. (p, False)) ps), w') \<and>
         files w' = files w \<and> rfaults w' = rfaults w"
proof (induction ps arbitrary: w)
  case Nil
  then show ?case by simp
next
  case (Cons q ps)
  let ?w1 = "noted [Str (''No automatic fix for: '' @ q)] w"
  from Cons.prems obtain c where c: "fst (readFile q w) = Inr c" "prettier_check E c (cfg, q)"
    by auto
  have one: "prettier_promise E (Some True) cfg q w = (Inr (q, False), ?w1)"
    by (rule prettier_promise_conforming[OF c])
  have "\<forall>p\<in>set ps. \<exists>c. fst (readFile p ?w1) = Inr c \<and> prettier_check E c (cfg, p)"
    using Cons.prems by (simp add: readFile_ok)
  from Cons.IH[OF this] obtain w' where
    rest: "all_p (map (prettier_promise E (Some True) cfg) ps) ?w1 =
             (Inr (map (\<lambda>p. (p, False)) ps), w')"
    and same: "files w' = files ?w1" "rfaults w' = rfaults ?w1"
    by blast
  from one rest same show ?case
    by simp
qed

text \<open>
  C10. With fix=true, a readable file whose content conforms gets no reformatted
  content: its promise records a failure and prints the note that there is no automatic
  fix. So when the configuration loads, at least one file is discovered and every
  discovered file is readable and conforms, the stage fails with \<open>Prettier failed\<close>
  (and writes nothing).
\<close>

theorem prettier_fix_conforming_fails:
  "(fst (readFile path w) = Inr c \<and> prettier_check E c (cfg, path) \<longrightarrow>
      prettier_promise E (Some True) cfg path w =
        (Inr (path, False),
         w\<lparr>console := console w @ [[Str (''No automatic fix for: '' @ path)]]\<rparr>)) \<and>
   (fst (prettierConfig_p E w) = Inr cfg \<and> discovered E w \<noteq> [] \<and>
    (\<forall>p\<in>set (discovered E w). \<exists>c. fst (readFile p w) = Inr c \<and> prettier_check E c (cfg, p)) \<longrightarrow>
      fst (prettierCheckPlugin E \<lparr>fix_opt = Some True\<rparr> w) = Inl (Error ''Prettier failed'') \<and>
      files (snd (prettierCheckPlugin E \<lparr>fix_opt = Some True\<rparr> w)) = files w)"
proof (intro conjI impI)
  assume "fst (readFile path w) = Inr c \<and> prettier_check E c (cfg, path)"
  then show "prettier_promise E (Some True) cfg path w =
        (Inr (path, False),
         w\<lparr>console := console w @ [[Str (''No automatic fix for: '' @ path)]]\<rparr>)"
    by (simp add: prettier_promise_conforming noted_def)
next
  assume h: "fst (prettierConfig_p E w) = Inr cfg \<and> discovered E w \<noteq> [] \<and>
    (\<forall>p\<in>set (discovered E w). \<exists>c. fst (readFile p w) = Inr c \<and> prettier_check E c (cfg, p))"
  then obtain w' where
    run: "all_p (map (prettier_promise E (Some True) cfg) (discovered E w)) w =
            (Inr (map (\<lambda>p. (p, False)) (discovered E w)), w')"
    and same: "files w' = files w"
    using all_p_conforming[of "discovered E w" w E cfg] by blast
  have all_fail: "filter (\<lambda>(path, success). \<not> success) (map (\<lambda>p. (p, False)) (discovered E w)) =
          map (\<lambda>p. (p, False)) (discovered E w)"
    by (induction "discovered E w") (simp_all add: filter_map o_def)
  from h run all_fail
  show "fst (prettierCheckPlugin E \<lparr>fix_opt = Some True\<rparr> w) = Inl (Error ''Prettier failed'')"
    by (simp add: prettierCheckPlugin_unfold)
  from h run all_fail same
  show "files (snd (prettierCheckPlugin E \<lparr>fix_opt = Some True\<rparr> w)) = files w"
    by (simp add: prettierCheckPlugin_unfold prettier_report_def)
qed







subsection \<open>The stage on the small projects\<close>

lemmas example_defs =
  env_a_def env_ab_def one_ok_def one_long_def one_short_def one_long_readonly_def
  two_mixed_def example_env_def example_world_def kit_files_def table_format_def

lemmas stage_eval =
  prettierCheckPlugin_unfold prettier_promise_unfold prettierConfig_p_def then_p_def
  readFile_def discovered_def resolve_def reject_def noted_def prettier_report_def truthy_def

text \<open>Without the fix flag the promise of a readable file records a failure, whatever its content.\<close>

lemma prettier_promise_nofix:
  "\<not> truthy fx \<Longrightarrow>
   prettier_promise E fx cfg p w =
     (case fst (readFile p w) of Inl e \<Rightarrow> (Inl e, w) | Inr c \<Rightarrow> (Inr (p, False), w))"
  by (simp add: prettier_promise_unfold split: sum.splits)

text \<open>
  C2. The claim is that with fix=false a file records a success exactly when it conforms.
  With fix=false the body never calls \<open>prettier.check\<close> (line 83 is guarded by the fix
  flag) and line 102 records a failure for every file. With a conforming \<open>a.ts\<close> and a
  non-conforming \<open>b.ts\<close> the stage fails and the printed list holds both paths.
\<close>

theorem prettierCheckPlugin_nofix_lists_conforming:
  "prettier_check env_ab ''const a = 1;'' (''{}'', ''/proj/src/a.ts'') \<and>
   \<not> prettier_check env_ab ''long'' (''{}'', ''/proj/src/b.ts'') \<and>
   prettierCheckPlugin env_ab \<lparr>fix_opt = Some False\<rparr> two_mixed =
     (Inl (Error ''Prettier failed''),
      two_mixed\<lparr>console :=
        [[Str (nl @ ''Fix Prettier issues in following files:'')],
         [Str ''/proj/src/a.ts''], [Str ''/proj/src/b.ts''],
         [Str (nl @ ''Run toolkit:dev to fix errors'')]]\<rparr>)"
  by (simp add: stage_eval example_defs)

lemma one_long_fixed:
  "prettierCheckPlugin env_a \<lparr>fix_opt = Some True\<rparr> one_long =
     (Inr (),
      one_long\<lparr>files := (files one_long)(''/proj/src/a.ts'' \<mapsto>
                  ''const answer = 42;                               x''),
               console := [[Str ''Fixed: /proj/src/a.ts'']]\<rparr>)"
  by (simp add: stage_eval example_defs)


lemma two_mixed_nofix_files:
  "files (snd (prettierCheckPlugin env_ab \<lparr>fix_opt = Some False\<rparr> two_mixed)) = files two_mixed"
  by (simp add: stage_eval example_defs)

theorem prettierCheckPlugin_writes_witness:
  "(fix_opt \<lparr>fix_opt = Some False\<rparr> \<noteq> Some True \<and>
    files (snd (prettierCheckPlugin env_ab \<lparr>fix_opt = Some False\<rparr> two_mixed)) = files two_mixed) \<and>
   (files (snd (prettierCheckPlugin env_a \<lparr>fix_opt = Some True\<rparr> one_long)) ''/proj/src/a.ts''
      \<noteq> files one_long ''/proj/src/a.ts'' \<and>
    distinct (discovered env_a one_long) \<and>
    fix_opt \<lparr>fix_opt = Some True\<rparr> = Some True \<and>
    ''/proj/src/a.ts'' \<in> set (discovered env_a one_long) \<and>
    (\<exists>cfg c. fst (prettierConfig_p env_a one_long) = Inr cfg \<and>
       fst (readFile ''/proj/src/a.ts'' one_long) = Inr c \<and>
       \<not> prettier_check env_a c (cfg, ''/proj/src/a.ts'') \<and>
       (\<exists>n. prettier_format env_a c (cfg, ''/proj/src/a.ts'') = Inr n \<and> 10 < length n \<and>
          files (snd (prettierCheckPlugin env_a \<lparr>fix_opt = Some True\<rparr> one_long)) ''/proj/src/a.ts''
            = Some n)))"
proof -
  have h1: "fix_opt \<lparr>fix_opt = Some False\<rparr> \<noteq> Some True"
    by simp
  have h2: "files (snd (prettierCheckPlugin env_a \<lparr>fix_opt = Some True\<rparr> one_long)) ''/proj/src/a.ts''
      \<noteq> files one_long ''/proj/src/a.ts''"
    by (simp add: one_long_fixed) (simp add: example_defs)
  have h3: "distinct (discovered env_a one_long)"
    by (simp add: discovered_def example_defs)
  from prettierCheckPlugin_writes[of "\<lparr>fix_opt = Some False\<rparr>" env_ab two_mixed] h1
  have c1: "files (snd (prettierCheckPlugin env_ab \<lparr>fix_opt = Some False\<rparr> two_mixed)) = files two_mixed"
    by blast
  from prettierCheckPlugin_writes[of "\<lparr>fix_opt = Some True\<rparr>" env_a one_long] h2
  have c2: "fix_opt \<lparr>fix_opt = Some True\<rparr> = Some True \<and>
    ''/proj/src/a.ts'' \<in> set (discovered env_a one_long) \<and>
    (\<exists>cfg c. fst (prettierConfig_p env_a one_long) = Inr cfg \<and>
       fst (readFile ''/proj/src/a.ts'' one_long) = Inr c \<and>
       \<not> prettier_check env_a c (cfg, ''/proj/src/a.ts'') \<and>
       (\<exists>c' n. \<not> prettier_check env_a c' (cfg, ''/proj/src/a.ts'') \<and>
          prettier_format env_a c' (cfg, ''/proj/src/a.ts'') = Inr n \<and> 10 < length n \<and>
          files (snd (prettierCheckPlugin env_a \<lparr>fix_opt = Some True\<rparr> one_long)) ''/proj/src/a.ts''
            = Some n) \<and>
       (distinct (discovered env_a one_long) \<longrightarrow>
          (\<exists>n. prettier_format env_a c (cfg, ''/proj/src/a.ts'') = Inr n \<and> 10 < length n \<and>
             files (snd (prettierCheckPlugin env_a \<lparr>fix_opt = Some True\<rparr> one_long)) ''/proj/src/a.ts''
               = Some n)))"
    by blast
  with h3 have c3: "\<exists>cfg c. fst (prettierConfig_p env_a one_long) = Inr cfg \<and>
       fst (readFile ''/proj/src/a.ts'' one_long) = Inr c \<and>
       \<not> prettier_check env_a c (cfg, ''/proj/src/a.ts'') \<and>
       (\<exists>n. prettier_format env_a c (cfg, ''/proj/src/a.ts'') = Inr n \<and> 10 < length n \<and>
          files (snd (prettierCheckPlugin env_a \<lparr>fix_opt = Some True\<rparr> one_long)) ''/proj/src/a.ts''
            = Some n)"
    by blast
  from h1 h2 h3 c1 c2 c3 show ?thesis by blast
qed

theorem prettier_fix_conforming_fails_witness:
  "(fst (readFile ''/proj/src/a.ts'' one_ok) = Inr ''const a = 1;'' \<and>
    prettier_check env_a ''const a = 1;'' (''{}'', ''/proj/src/a.ts'')) \<and>
   fst (prettierConfig_p env_a one_ok) = Inr ''{}'' \<and>
   discovered env_a one_ok = [''/proj/src/a.ts''] \<and>
   prettier_promise env_a (Some True) ''{}'' ''/proj/src/a.ts'' one_ok =
     (Inr (''/proj/src/a.ts'', False),
      one_ok\<lparr>console := console one_ok @ [[Str (''No automatic fix for: '' @ ''/proj/src/a.ts'')]]\<rparr>) \<and>
   fst (prettierCheckPlugin env_a \<lparr>fix_opt = Some True\<rparr> one_ok) = Inl (Error ''Prettier failed'') \<and>
   files (snd (prettierCheckPlugin env_a \<lparr>fix_opt = Some True\<rparr> one_ok)) = files one_ok"
proof -
  have h1: "fst (readFile ''/proj/src/a.ts'' one_ok) = Inr ''const a = 1;'' \<and>
    prettier_check env_a ''const a = 1;'' (''{}'', ''/proj/src/a.ts'')"
    by (simp add: readFile_def example_defs)
  have cfg: "fst (prettierConfig_p env_a one_ok) = Inr ''{}''"
    by (simp add: stage_eval example_defs)
  have found: "discovered env_a one_ok = [''/proj/src/a.ts'']"
    by (simp add: stage_eval example_defs)
  from h1 cfg found
  have h2: "fst (prettierConfig_p env_a one_ok) = Inr ''{}'' \<and> discovered env_a one_ok \<noteq> [] \<and>
    (\<forall>p\<in>set (discovered env_a one_ok).
        \<exists>c. fst (readFile p one_ok) = Inr c \<and> prettier_check env_a c (''{}'', p))"
    by simp
  note inst = prettier_fix_conforming_fails[of "''/proj/src/a.ts''" one_ok "''const a = 1;''" env_a "''{}''"]
  from inst h1 have c1: "prettier_promise env_a (Some True) ''{}'' ''/proj/src/a.ts'' one_ok =
     (Inr (''/proj/src/a.ts'', False),
      one_ok\<lparr>console := console one_ok @ [[Str (''No automatic fix for: '' @ ''/proj/src/a.ts'')]]\<rparr>)"
    by blast
  from inst h2 have c2:
    "fst (prettierCheckPlugin env_a \<lparr>fix_opt = Some True\<rparr> one_ok) = Inl (Error ''Prettier failed'') \<and>
     files (snd (prettierCheckPlugin env_a \<lparr>fix_opt = Some True\<rparr> one_ok)) = files one_ok"
    by blast
  from h1 cfg found c1 c2 show ?thesis by blast
qed




section \<open>Lint: what the task does, and what its body would do\<close>

lemma foldl_failures:
  "foldl (\<lambda>fls result. fls @ failures result) acc rs = acc @ concat (map failures rs)"
  by (induction rs arbitrary: acc) simp_all


lemma call_existsSync_sync:
  "call_existsSync fs_sync p w = (Inr (files w p \<noteq> None), w)"
  by (simp add: call_existsSync_def fs_sync_def)

lemma lint_tail:
  "(let lintResults =
          filter (\<lambda>result. errorCount result > 0 \<or> warningCount result > 0) results in
    if length lintResults > 0
    then
      let fls = foldl (\<lambda>fls result. fls @ failures result) [] lintResults in
      then_p (console_log [Str nl]) (\<lambda>_.
      then_p (forEach_log fls (\<lambda>f. [Str (failure_line f)])) (\<lambda>_.
      then_p (console_log [Str nl]) (\<lambda>_.
      reject (Error (show_nat (length fls) @ '' linting errors found in '' @
                     show_nat (length lintResults) @ '' files'')))))
    else resolve ()) w = lint_outcome results w"
  by (simp add: lint_outcome_def then_p_def forEach_log_eq console_log_def reject_def
        resolve_def foldl_failures lint_report_def Let_def)

lemma lintPlugin_body_sync:
  "lintPlugin_body fs_sync (Array files_found) E opts w =
     (case findConfiguration E
             (if files w (resolvePath E (cwd E) ''tslint.json'') \<noteq> None
              then resolvePath E (cwd E) ''tslint.json''
              else resolvePath E (dirname E) ''../../config/tslint.plugin.json'') w of
        Inl e \<Rightarrow> (Inl e, w)
      | Inr configuration \<Rightarrow>
          (case map_sync (lint_one fs_sync E opts configuration) files_found w of
             (Inl e, w') \<Rightarrow> (Inl e, w')
           | (Inr results, w') \<Rightarrow> lint_outcome results w'))"
proof -
  have one: "(\<lambda>fileName.
        then_p (call_readFileSync fs_sync fileName) (\<lambda>fileContents.
          linter_lint E \<lparr>linter_fix = (fix_opt opts = Some True), formatter = ''json''\<rparr>
            fileName fileContents configuration)) = lint_one fs_sync E opts configuration"
    for configuration
    by (rule ext) (simp add: lint_one_def)
  show ?thesis
    unfolding lintPlugin_body_def lint_tail[abs_def]
    apply (subst then_p_def)
    apply (simp only: call_existsSync_sync prod.case sum.case Let_def one)
    apply (subst then_p_def)
    apply (simp only: prod.case)
    apply (cases "files w (resolvePath E (cwd E) ''tslint.json'')")
     apply (simp_all add: then_p_def sources_map_def split: sum.splits prod.splits)
    done
qed

text \<open>
  C4. The claim is that the lint stage resolves the configuration once (the project's
  \<open>tslint.json\<close> when it exists, else the bundled one) and lints every discovered
  TypeScript source against it. The body is written for the synchronous file-system
  module and a list of sources (see \<open>lintPlugin_body_sync\<close>), but line 4 binds \<open>fs\<close> to
  the promise-based namespace, which has no \<open>existsSync\<close>: for every environment,
  every option and every state the task rejects with a \<open>TypeError\<close> at line 121, before
  any configuration is resolved or any file is read. With a synchronous \<open>fs\<close> it would
  still not succeed, for line 130 does not await the promise of the sources.
\<close>

theorem lintPlugin_always_TypeError:
  "lintPlugin E opts w = (Inl (TypeError ''fs.existsSync is not a function''), w) \<and>
   fst (lintPlugin_body fs_sync (Promise (getTypescriptSources E)) E opts w) \<noteq> Inr ()"
  by (simp add: lintPlugin_def useSpinner_def lintPlugin_body_def call_existsSync_def
        fs_promises_def fs_sync_def then_p_def sources_map_def reject_def Let_def
      split: sum.splits)

text \<open>
  C7. The claim is that the lint stage flattens the rule failures in discovery order,
  prints one line for each and raises one failure with the number of failures and of
  files. On two sources with one error each the task rejects with the \<open>TypeError\<close> of
  line 121 and prints nothing; the body, run with the synchronous file-system module
  on the list of the two sources, prints the two lines in discovery order and raises
  \<open>2 linting errors found in 2 files\<close>.
\<close>

theorem lintPlugin_two_errors:
  "lintPlugin env_ab \<lparr>fix_opt = Some False\<rparr> two_unused =
     (Inl (TypeError ''fs.existsSync is not a function''), two_unused) \<and>
   lintPlugin_body fs_sync (Array [''/proj/src/a.ts'', ''/proj/src/b.ts'']) env_ab
       \<lparr>fix_opt = Some False\<rparr> two_unused =
     (Inl (Error ''2 linting errors found in 2 files''),
      two_unused\<lparr>console :=
        [[Str nl],
         [Str ''ERROR: /a.ts[1:6]: unused variable''],
         [Str ''ERROR: /b.ts[1:6]: unused variable''],
         [Str nl]]\<rparr>)"
proof
  show "lintPlugin env_ab \<lparr>fix_opt = Some False\<rparr> two_unused =
     (Inl (TypeError ''fs.existsSync is not a function''), two_unused)"
    by (simp add: lintPlugin_def useSpinner_def lintPlugin_body_def call_existsSync_def
          fs_promises_def then_p_def)
  have lines:
    "failure_line \<lparr>getRuleSeverity = ''error'', getFileName = ''/proj/src/a.ts'', line = 0,
        character = 6, getFailure = ''unused variable''\<rparr> = ''ERROR: /a.ts[1:6]: unused variable''"
    "failure_line \<lparr>getRuleSeverity = ''error'', getFileName = ''/proj/src/b.ts'', line = 0,
        character = 6, getFailure = ''unused variable''\<rparr> = ''ERROR: /b.ts[1:6]: unused variable''"
    by (simp_all add: failure_line_def split_def)
  have run: "map_sync (lint_one fs_sync env_ab \<lparr>fix_opt = Some False\<rparr> configuration)
       [''/proj/src/a.ts'', ''/proj/src/b.ts''] two_unused =
     (Inr [\<lparr>errorCount = 1, warningCount = 0,
            failures = [\<lparr>getRuleSeverity = ''error'', getFileName = ''/proj/src/a.ts'', line = 0,
                         character = 6, getFailure = ''unused variable''\<rparr>]\<rparr>,
           \<lparr>errorCount = 1, warningCount = 0,
            failures = [\<lparr>getRuleSeverity = ''error'', getFileName = ''/proj/src/b.ts'', line = 0,
                         character = 6, getFailure = ''unused variable''\<rparr>]\<rparr>], two_unused)"
    for configuration
    by (simp add: lint_one_def call_readFileSync_def fs_sync_def then_p_def resolve_def
          readFile_def two_unused_def example_defs)
  have cfg: "findConfiguration env_ab p w = Inr p" for p w
    by (simp add: example_defs)
  have paths: "resolvePath env_ab (cwd env_ab) ''tslint.json'' = ''/proj/tslint.json''"
    "resolvePath env_ab (dirname env_ab) ''../../config/tslint.plugin.json'' =
       ''/kit/tasks/../../config/tslint.plugin.json''"
    by (simp_all add: example_defs)
  have absent: "files two_unused ''/proj/tslint.json'' = None" "console two_unused = []"
    by (simp_all add: two_unused_def example_defs)
  show "lintPlugin_body fs_sync (Array [''/proj/src/a.ts'', ''/proj/src/b.ts'']) env_ab
       \<lparr>fix_opt = Some False\<rparr> two_unused =
     (Inl (Error ''2 linting errors found in 2 files''),
      two_unused\<lparr>console :=
        [[Str nl],
         [Str ''ERROR: /a.ts[1:6]: unused variable''],
         [Str ''ERROR: /b.ts[1:6]: unused variable''],
         [Str nl]]\<rparr>)"
    by (simp add: lintPlugin_body_sync paths absent cfg run lint_outcome_def lint_report_def
          lines del: map_sync.simps)
qed

text \<open>
  With the tasks of the module itself the runner therefore never succeeds: it stops at the
  lint stage at the latest.
\<close>

lemma module_pipeline_never_succeeds:
  "fst (pluginBuildRunner (plugin_tasks E) opts w) \<noteq> Inr ()"
proof -
  have lint: "lintPlugin E o1 w1 = (Inl (TypeError ''fs.existsSync is not a function''), w1)"
    for o1 w1
    by (simp add: lintPlugin_def useSpinner_def lintPlugin_body_def call_existsSync_def
          fs_promises_def then_p_def)
  show ?thesis
    by (simp add: pluginBuildRunner_def plugin_tasks_def then_p_def lint
          split: prod.splits sum.splits)
qed

end
